theory Spec2Isabelle
  imports Complex_Main
begin

section \<open>Retrieval and answer pipeline of the knowledge assistant\<close>

text \<open>
  A shallow embedding of \<^verbatim>\<open>app/services/rag_service.py\<close> (class \<^verbatim>\<open>RAGService\<close>) and
  \<^verbatim>\<open>app/services/chat_service.py\<close> (class \<^verbatim>\<open>ChatService\<close>).

  The external collaborators are parameters of the model: the text splitter, the replies
  of the embedding and generation backends, the float32 distance kernel of faiss, the
  floating-point format of numpy's scalar arithmetic, the MD5 digest, the clock of the
  Redis server and whether a Redis or disk operation succeeds. A floating-point number
  is the real number it denotes. A leading underscore of a Python name is dropped
  (\<^verbatim>\<open>_get_embedding\<close> is \<open>get_embedding\<close>).
\<close>

subsection \<open>Exceptions and HTTP replies\<close>

datatype exn_class =
  ConnectionError | HTTPError | JSONDecodeError | KeyError | ValueError | AssertionError
  | IndexError

text \<open>An exception: its class and the text \<^verbatim>\<open>str(e)\<close> gives.\<close>

datatype exn = Exn exn_class string

fun str_exn :: "exn \<Rightarrow> string" where
  "str_exn (Exn c msg) = msg"

text \<open>
  What \<^verbatim>\<open>requests.post\<close> can do: raise (no connection), or return a response with a
  status code, the reason text of that status, and a body. The body is not JSON, or a
  JSON object without the key that is read, or one holding it.
\<close>

datatype 'a body = NotJson string | MissingKey | JsonField 'a

datatype 'a http_reply = RequestFailed string | Response nat string "'a body"

text \<open>
  \<^verbatim>\<open>response.raise_for_status()\<close> followed by \<^verbatim>\<open>response.json()[key]\<close>.
\<close>

fun post_json :: "string \<Rightarrow> 'a http_reply \<Rightarrow> exn + 'a" where
  "post_json key (RequestFailed msg) = Inl (Exn ConnectionError msg)"
| "post_json key (Response status reason b) =
     (if 400 \<le> status \<and> status < 600 then Inl (Exn HTTPError reason)
      else (case b of
              NotJson msg \<Rightarrow> Inl (Exn JSONDecodeError msg)
            | MissingKey \<Rightarrow> Inl (Exn KeyError ([CHR 0x27] @ key @ [CHR 0x27]))
            | JsonField v \<Rightarrow> Inr v))"

subsection \<open>Settings\<close>

definition TOP_K_RESULTS :: int where
  "TOP_K_RESULTS = 3"

definition CACHE_TTL :: nat where
  "CACHE_TTL = 3600"

definition dimension :: nat where
  "dimension = 768"

subsection \<open>Floating-point rounding\<close>

text \<open>
  A binary floating-point format: the number of bits of the significand and the least
  exponent of a normal number. The score of a search result is computed by numpy's
  scalar arithmetic on a \<^verbatim>\<open>float32\<close> distance and the integer \<^verbatim>\<open>1\<close>, which is in
  \<open>binary32\<close> or in \<open>binary64\<close>, depending on the promotion rules of the version of
  numpy.
\<close>

record float_format =
  fmt_prec :: nat
  fmt_emin :: int

definition binary32 :: float_format where
  "binary32 = \<lparr>fmt_prec = 24, fmt_emin = - 126\<rparr>"

definition binary64 :: float_format where
  "binary64 = \<lparr>fmt_prec = 53, fmt_emin = - 1022\<rparr>"

definition np_format :: "float_format \<Rightarrow> bool" where
  "np_format fmt = (fmt = binary32 \<or> fmt = binary64)"

text \<open>Rounding to the nearest integer, a tie to the even one.\<close>

definition rne :: "real \<Rightarrow> int" where
  "rne y =
     (let f = \<lfloor>y\<rfloor> in
      if y - of_int f < 1 / 2 then f
      else if 1 / 2 < y - of_int f then f + 1
      else if even f then f else f + 1)"

text \<open>
  The exponent of a positive number in a format (that of the least normal number for a
  subnormal one), the distance of the neighbouring floats there, and the rounding of a
  real number to the nearest float, as IEEE 754 arithmetic rounds the exact result of
  an operation. The overflow of a result to infinity is left out: the numbers that are
  rounded here are at most \<open>1 + FLT_MAX\<close>, which both formats round to \<open>FLT_MAX\<close>.
\<close>

definition fp_exponent :: "float_format \<Rightarrow> real \<Rightarrow> int" where
  "fp_exponent fmt x = max (fmt_emin fmt) \<lfloor>log 2 x\<rfloor>"

definition ulp :: "float_format \<Rightarrow> real \<Rightarrow> real" where
  "ulp fmt x = 2 powr (of_int (fp_exponent fmt x) - (real (fmt_prec fmt) - 1))"

definition fp_round :: "float_format \<Rightarrow> real \<Rightarrow> real" where
  "fp_round fmt x =
     (if x = 0 then 0
      else if 0 < x then ulp fmt x * of_int (rne (x / ulp fmt x))
      else - (ulp fmt (- x) * of_int (rne (- x / ulp fmt (- x)))))"

subsection \<open>Chunks and the FAISS flat index\<close>

type_synonym vector = "real list"

record chunk =
  document_id :: int
  filename :: string
  chunk_index :: nat
  content :: string

text \<open>
  \<^verbatim>\<open>faiss.IndexFlatL2\<close>: the dimension \<^verbatim>\<open>d\<close> and the stored rows; row ids are the
  positions.
\<close>

record faiss_index =
  idx_d :: nat
  idx_xb :: "vector list"

definition IndexFlatL2 :: "nat \<Rightarrow> faiss_index" where
  "IndexFlatL2 dd = \<lparr>idx_d = dd, idx_xb = []\<rparr>"

definition ntotal :: "faiss_index \<Rightarrow> nat" where
  "ntotal idx = length (idx_xb idx)"

text \<open>
  \<^verbatim>\<open>np.array(embeddings, dtype='float32')\<close> on a list of one-dimensional arrays: rows of
  different lengths cannot form an array.
\<close>

definition np_array :: "vector list \<Rightarrow> exn + vector list" where
  "np_array vs =
     (case vs of
        [] \<Rightarrow> Inr []
      | v # rest \<Rightarrow>
          (if list_all (\<lambda>w. length w = length v) rest then Inr vs
           else Inl (Exn ValueError ''inhomogeneous shape'')))"

text \<open>
  \<^verbatim>\<open>index.add(x)\<close>: the wrapper unpacks \<^verbatim>\<open>n, d = x.shape\<close> (an empty array has the
  shape \<^verbatim>\<open>(0,)\<close>, which does not unpack) and asserts \<^verbatim>\<open>d == self.d\<close>.
\<close>

definition index_add :: "faiss_index \<Rightarrow> vector list \<Rightarrow> exn + faiss_index" where
  "index_add idx x =
     (case x of
        [] \<Rightarrow> Inl (Exn ValueError ''not enough values to unpack'')
      | v # rest \<Rightarrow>
          (if length v = idx_d idx then Inr (idx\<lparr>idx_xb := idx_xb idx @ x\<rparr>)
           else Inl (Exn AssertionError [])))"

text \<open>
  The exact squared Euclidean distance, the metric that the index computes in
  \<^verbatim>\<open>float32\<close>.
\<close>

definition l2sqr :: "vector \<Rightarrow> vector \<Rightarrow> real" where
  "l2sqr x y = (\<Sum>(a, b) \<leftarrow> zip x y. (a - b)\<^sup>2)"

definition FLT_MAX :: real where
  "FLT_MAX = 340282346638528859811704183484516925440"

text \<open>
  \<^verbatim>\<open>index.search(x, k)\<close> for one query row. The wrapper asserts the dimension and
  \<^verbatim>\<open>k > 0\<close>. The distance of the query to a row is computed by the \<^verbatim>\<open>float32\<close>
  kernel of faiss, a parameter here: its result is a finite float, or none when the
  computation overflows or yields no number. The result starts as \<open>k\<close> entries with the
  distance \<open>FLT_MAX\<close> and the label \<open>-1\<close>, and a row replaces an entry only with a
  distance below it. So the rows with a finite distance below \<open>FLT_MAX\<close> are the
  candidates, the result holds the \<open>k\<close> nearest of them by ascending distance, and
  what the candidates do not fill keeps the label \<open>-1\<close>, also when the index has \<open>k\<close>
  rows or more.
\<close>

definition candidates ::
  "(vector \<Rightarrow> vector \<Rightarrow> real option) \<Rightarrow> faiss_index \<Rightarrow> vector \<Rightarrow> (real \<times> int) list" where
  "candidates kern idx q =
     List.map_filter
       (\<lambda>(row, i). case kern q row of
                      None \<Rightarrow> None
                    | Some distance \<Rightarrow>
                        if distance < FLT_MAX then Some (distance, int i) else None)
       (zip (idx_xb idx) [0..<ntotal idx])"

definition index_search ::
  "(vector \<Rightarrow> vector \<Rightarrow> real option) \<Rightarrow> faiss_index \<Rightarrow> vector \<Rightarrow> int \<Rightarrow>
   exn + (real \<times> int) list" where
  "index_search kern idx q k =
     (if length q \<noteq> idx_d idx then Inl (Exn AssertionError [])
      else if k \<le> 0 then Inl (Exn AssertionError [])
      else (let best = take (nat k) (sort_key fst (candidates kern idx q))
            in Inr (best @ replicate (nat k - length best) (FLT_MAX, - 1))))"

text \<open>\<^verbatim>\<open>xs[i]\<close> on a Python list, where \<open>-1\<close> is the last position.\<close>

definition py_index :: "'a list \<Rightarrow> int \<Rightarrow> exn + 'a" where
  "py_index xs i =
     (if 0 \<le> i \<and> i < int (length xs) then Inr (xs ! nat i)
      else if i < 0 \<and> - int (length xs) \<le> i then Inr (xs ! nat (int (length xs) + i))
      else Inl (Exn IndexError ''list index out of range''))"

subsection \<open>RAGService\<close>

text \<open>
  The service object: the index, the chunk metadata list \<^verbatim>\<open>self.documents\<close>, and the
  two files \<^verbatim>\<open>faiss_index.bin\<close> and \<^verbatim>\<open>faiss_documents.pkl\<close> as last written.
\<close>

record rag_service =
  index :: faiss_index
  documents :: "chunk list"
  disk :: "(faiss_index \<times> chunk list) option"

definition initialize_index :: "rag_service \<Rightarrow> rag_service" where
  "initialize_index st = st\<lparr>index := IndexFlatL2 dimension, documents := []\<rparr>"

text \<open>\<^verbatim>\<open>_save_index\<close> logs a failed write and goes on.\<close>

definition save_index :: "bool \<Rightarrow> rag_service \<Rightarrow> rag_service" where
  "save_index write_ok st =
     (if write_ok then st\<lparr>disk := Some (index st, documents st)\<rparr> else st)"

text \<open>\<^verbatim>\<open>_get_embedding\<close>: any exception is logged and raised again.\<close>

definition get_embedding :: "vector http_reply \<Rightarrow> exn + vector" where
  "get_embedding reply = post_json ''embedding'' reply"

text \<open>
  The backends and the other collaborators of one call. \<open>embed i text\<close> is the reply to
  the \<open>i\<close>-th embedding request of the call, \<open>generate prompt\<close> the reply of the
  generation backend, \<open>fvec_L2sqr\<close> the distance kernel of faiss and \<open>np_float\<close> the
  format of numpy's scalar arithmetic.
\<close>

record env =
  split_text :: "string \<Rightarrow> string list"
  embed :: "nat \<Rightarrow> string \<Rightarrow> vector http_reply"
  fvec_L2sqr :: "vector \<Rightarrow> vector \<Rightarrow> real option"
  np_float :: float_format
  write_ok :: bool
  generate :: "string \<Rightarrow> string http_reply"
  md5_hexdigest :: "string \<Rightarrow> string"
  redis_ok :: bool
  now :: nat

text \<open>
  The loop of \<^verbatim>\<open>index_document\<close>: \<open>i\<close> and the remaining chunks, the local list
  \<^verbatim>\<open>embeddings\<close> and the list \<^verbatim>\<open>self.documents\<close>, which the loop body appends to after
  each embedding. An exception leaves the loop with \<^verbatim>\<open>self.documents\<close> as it is then.
\<close>

fun embed_chunks ::
  "(nat \<Rightarrow> string \<Rightarrow> vector http_reply) \<Rightarrow> int \<Rightarrow> string \<Rightarrow> nat \<Rightarrow> string list \<Rightarrow>
   vector list \<Rightarrow> chunk list \<Rightarrow> (exn + vector list) \<times> chunk list" where
  "embed_chunks emb did fname i [] embeddings docs = (Inr embeddings, docs)"
| "embed_chunks emb did fname i (c # cs) embeddings docs =
     (case get_embedding (emb i c) of
        Inl e \<Rightarrow> (Inl e, docs)
      | Inr embedding \<Rightarrow>
          embed_chunks emb did fname (Suc i) cs (embeddings @ [embedding])
            (docs @ [\<lparr>document_id = did, filename = fname, chunk_index = i, content = c\<rparr>]))"

text \<open>Decimal digits of a number, for the f-string of the embedding id.\<close>

fun str_nat :: "nat \<Rightarrow> string" where
  "str_nat n =
     (if n < 10 then [char_of (48 + n)] else str_nat (n div 10) @ [char_of (48 + n mod 10)])"

definition str_int :: "int \<Rightarrow> string" where
  "str_int i = (if i < 0 then ''-'' @ str_nat (nat (- i)) else str_nat (nat i))"

definition index_document ::
  "env \<Rightarrow> rag_service \<Rightarrow> int \<Rightarrow> string \<Rightarrow> string \<Rightarrow> (exn + string) \<times> rag_service" where
  "index_document ev st did fname text_content =
     (let chunks = split_text ev text_content;
          (r, docs) = embed_chunks (embed ev) did fname 0 chunks [] (documents st);
          st1 = st\<lparr>documents := docs\<rparr>
      in case r of
           Inl e \<Rightarrow> (Inl e, st1)
         | Inr embeddings \<Rightarrow>
             (case np_array embeddings of
                Inl e \<Rightarrow> (Inl e, st1)
              | Inr embeddings_array \<Rightarrow>
                  (case index_add (index st1) embeddings_array of
                     Inl e \<Rightarrow> (Inl e, st1)
                   | Inr idx \<Rightarrow>
                       (Inr (''doc_'' @ str_int did @ ''_'' @ str_nat (length chunks) @ ''_chunks''),
                        save_index (write_ok ev) (st1\<lparr>index := idx\<rparr>)))))"

text \<open>
  The conversion of an L2 distance to a similarity score in \<^verbatim>\<open>search_similar\<close>: the
  expression \<^verbatim>\<open>1 / (1 + distance)\<close>, an addition and a division in floating-point
  arithmetic.
\<close>

definition similarity :: "float_format \<Rightarrow> real \<Rightarrow> real" where
  "similarity fmt distance = fp_round fmt (1 / fp_round fmt (1 + distance))"

text \<open>
  The loop of \<^verbatim>\<open>search_similar\<close> over the pairs of a distance and a row id.
\<close>

fun collect_results ::
  "float_format \<Rightarrow> chunk list \<Rightarrow> (real \<times> int) list \<Rightarrow> exn + (chunk \<times> real) list" where
  "collect_results fmt docs [] = Inr []"
| "collect_results fmt docs ((distance, idx) # rest) =
     (if idx < int (length docs) then
        (case py_index docs idx of
           Inl e \<Rightarrow> Inl e
         | Inr c \<Rightarrow>
             (case collect_results fmt docs rest of
                Inl e \<Rightarrow> Inl e
              | Inr results \<Rightarrow> Inr ((c, similarity fmt distance) # results)))
      else collect_results fmt docs rest)"

definition search_similar ::
  "env \<Rightarrow> rag_service \<Rightarrow> string \<Rightarrow> int option \<Rightarrow> exn + (chunk \<times> real) list" where
  "search_similar ev st query_text top_k =
     (let k = (case top_k of None \<Rightarrow> TOP_K_RESULTS | Some k \<Rightarrow> k)
      in if ntotal (index st) = 0 then Inr []
         else (case get_embedding (embed ev 0 query_text) of
                 Inl e \<Rightarrow> Inl e
               | Inr query_embedding \<Rightarrow>
                   (case index_search (fvec_L2sqr ev) (index st) query_embedding
                           (min k (int (ntotal (index st)))) of
                      Inl e \<Rightarrow> Inl e
                    | Inr hits \<Rightarrow> collect_results (np_float ev) (documents st) hits)))"

record source_ref =
  src_document_id :: int
  src_filename :: string
  relevance_score :: real

text \<open>
  The loop of \<^verbatim>\<open>get_context_for_query\<close>: the lists \<^verbatim>\<open>context_parts\<close> and
  \<^verbatim>\<open>sources\<close> and the set \<^verbatim>\<open>seen_docs\<close>.
\<close>

fun build_context ::
  "(chunk \<times> real) list \<Rightarrow> string list \<Rightarrow> source_ref list \<Rightarrow> int set \<Rightarrow>
   string list \<times> source_ref list" where
  "build_context [] context_parts sources seen_docs = (context_parts, sources)"
| "build_context ((chunk_data, score) # rest) context_parts sources seen_docs =
     (let doc_id = document_id chunk_data in
      if doc_id \<notin> seen_docs then
        build_context rest (context_parts @ [content chunk_data])
          (sources @ [\<lparr>src_document_id = doc_id, src_filename = filename chunk_data,
                        relevance_score = score\<rparr>])
          (insert doc_id seen_docs)
      else build_context rest (context_parts @ [content chunk_data]) sources seen_docs)"

text \<open>\<^verbatim>\<open>sep.join(parts)\<close>.\<close>

fun join :: "string \<Rightarrow> string list \<Rightarrow> string" where
  "join sep [] = []"
| "join sep [p] = p"
| "join sep (p # q # ps) = p @ sep @ join sep (q # ps)"

definition separator :: string where
  "separator = [CHR 0x0A, CHR 0x0A] @ ''---'' @ [CHR 0x0A, CHR 0x0A]"

definition get_context_for_query ::
  "env \<Rightarrow> rag_service \<Rightarrow> string \<Rightarrow> exn + (string \<times> source_ref list)" where
  "get_context_for_query ev st query_text =
     (case search_similar ev st query_text None of
        Inl e \<Rightarrow> Inl e
      | Inr similar_chunks \<Rightarrow>
          (if similar_chunks = [] then Inr ([], [])
           else (let (context_parts, sources) = build_context similar_chunks [] [] {}
                 in Inr (join separator context_parts, sources))))"

subsection \<open>ChatService\<close>

text \<open>
  What is cached for a query: the dictionary with the keys \<^verbatim>\<open>response\<close> and
  \<^verbatim>\<open>sources\<close>. \<^verbatim>\<open>json.dumps\<close> and \<^verbatim>\<open>json.loads\<close> are inverse on such a dictionary
  and are left out; the dictionary has two keys, so it is never falsy.
\<close>

record cache_data =
  response :: string
  sources :: "source_ref list"

text \<open>
  The Redis server maps a key to a value and the time at which it expires. The service
  holds a client (\<open>None\<close> when caching is disabled or the first ping failed) and,
  for the effects of \<^verbatim>\<open>query\<close> on the generation backend, the prompts posted to it.
\<close>

type_synonym redis = "string \<Rightarrow> (cache_data \<times> nat) option"

record chat_service =
  rag :: rag_service
  redis_client :: "redis option"
  generate_requests :: "string list"

definition redis_get :: "redis \<Rightarrow> nat \<Rightarrow> string \<Rightarrow> cache_data option" where
  "redis_get r t k =
     (case r k of
        None \<Rightarrow> None
      | Some (v, expires_at) \<Rightarrow> (if t < expires_at then Some v else None))"

definition redis_setex :: "redis \<Rightarrow> nat \<Rightarrow> string \<Rightarrow> nat \<Rightarrow> cache_data \<Rightarrow> redis" where
  "redis_setex r t k ttl v = r(k \<mapsto> (v, t + ttl))"

definition get_cache_key :: "env \<Rightarrow> string \<Rightarrow> string" where
  "get_cache_key ev query_text = ''chat:'' @ md5_hexdigest ev query_text"

text \<open>\<^verbatim>\<open>_get_cached_response\<close>: a failing Redis read is logged and counts as a miss.\<close>

definition get_cached_response :: "env \<Rightarrow> chat_service \<Rightarrow> string \<Rightarrow> cache_data option" where
  "get_cached_response ev st query_text =
     (case redis_client st of
        None \<Rightarrow> None
      | Some r \<Rightarrow>
          (if redis_ok ev then redis_get r (now ev) (get_cache_key ev query_text)
           else None))"

text \<open>\<^verbatim>\<open>_cache_response\<close>: a failing Redis write is logged and nothing is stored.\<close>

definition cache_response :: "env \<Rightarrow> chat_service \<Rightarrow> string \<Rightarrow> cache_data \<Rightarrow> chat_service" where
  "cache_response ev st query_text data =
     (case redis_client st of
        None \<Rightarrow> st
      | Some r \<Rightarrow>
          (if redis_ok ev then
             st\<lparr>redis_client :=
                  Some (redis_setex r (now ev) (get_cache_key ev query_text) CACHE_TTL data)\<rparr>
           else st))"

definition newline :: string where
  "newline = [CHR 0x0A]"

definition build_prompt :: "string \<Rightarrow> string \<Rightarrow> string" where
  "build_prompt query_text context =
     ''You are an AI assistant that answers questions based ONLY on the provided context from uploaded documents.''
     @ newline @ newline
     @ ''CRITICAL RULES:'' @ newline
     @ ''1. Answer ONLY using information from the context below'' @ newline
     @ ''2. If the context doesn'' @ [CHR 0x27] @ ''t contain relevant information, say ''
     @ [CHR 0x22] @ ''I don'' @ [CHR 0x27]
     @ ''t have enough information in the uploaded documents to answer this question.''
     @ [CHR 0x22] @ newline
     @ ''3. Do NOT use external knowledge or make assumptions'' @ newline
     @ ''4. Cite specific parts of the context when answering'' @ newline
     @ ''5. Be concise and accurate'' @ newline @ newline
     @ ''CONTEXT FROM DOCUMENTS:'' @ newline
     @ context @ newline @ newline
     @ ''USER QUESTION:'' @ newline
     @ query_text @ newline @ newline
     @ ''ANSWER:''"

definition no_documents_answer :: string where
  "no_documents_answer =
     ''I don'' @ [CHR 0x27] @ ''t have any documents to answer your question. ''
     @ ''Please upload some documents first.''"

text \<open>\<^verbatim>\<open>str.strip()\<close>, on the ASCII whitespace characters.\<close>

definition is_space :: "char \<Rightarrow> bool" where
  "is_space c =
     (let n = (of_char c :: nat) in (9 \<le> n \<and> n \<le> 13) \<or> (28 \<le> n \<and> n \<le> 32))"

definition strip :: "string \<Rightarrow> string" where
  "strip s = rev (dropWhile is_space (rev (dropWhile is_space s)))"

text \<open>
  \<^verbatim>\<open>query\<close>. The \<^verbatim>\<open>try\<close> block posts the prompt and reads the key
  \<^verbatim>\<open>response\<close>; its \<^verbatim>\<open>except\<close> branch sets the answer to the error text and
  \<^verbatim>\<open>sources\<close> to the empty list, and the statements after it (the cache write and the
  return) run in both cases. An exception of the retrieval is not caught.
\<close>

definition query ::
  "env \<Rightarrow> chat_service \<Rightarrow> string \<Rightarrow>
   (exn + (string \<times> source_ref list \<times> bool)) \<times> chat_service" where
  "query ev st user_query =
     (case get_cached_response ev st user_query of
        Some cached \<Rightarrow> (Inr (response cached, sources cached, True), st)
      | None \<Rightarrow>
          (case get_context_for_query ev (rag st) user_query of
             Inl e \<Rightarrow> (Inl e, st)
           | Inr (context, srcs) \<Rightarrow>
               (if context = [] then (Inr (no_documents_answer, [], False), st)
                else
                  (let prompt = build_prompt user_query context;
                       st1 = st\<lparr>generate_requests := generate_requests st @ [prompt]\<rparr>;
                       (answer, srcs1) =
                         (case post_json ''response'' (generate ev prompt) of
                            Inr text_out \<Rightarrow> (strip text_out, srcs)
                          | Inl e \<Rightarrow> (''Error generating response: '' @ str_exn e, []));
                       cache_entry = \<lparr>response = answer, sources = srcs1\<rparr>
                   in (Inr (answer, srcs1, False),
                       cache_response ev st1 user_query cache_entry)))))"

subsection \<open>Sequences of calls\<close>

text \<open>
  A sequence of \<^verbatim>\<open>index_document\<close> calls, each with the collaborators it meets. The
  result is \<open>None\<close> as soon as one call raises.
\<close>

fun index_documents ::
  "rag_service \<Rightarrow> (env \<times> int \<times> string \<times> string) list \<Rightarrow> rag_service option" where
  "index_documents st [] = Some st"
| "index_documents st ((ev, did, fname, text_content) # calls) =
     (case index_document ev st did fname text_content of
        (Inl e, st1) \<Rightarrow> None
      | (Inr r, st1) \<Rightarrow> index_documents st1 calls)"

subsection \<open>Example collaborators and states\<close>

text \<open>A splitter that makes one chunk of every character, and a stand-in digest.\<close>

definition split_chars :: "string \<Rightarrow> string list" where
  "split_chars s = map (\<lambda>c. [c]) s"

text \<open>
  A distance kernel that is exact where the exact squared distance is below
  \<open>FLT_MAX\<close> and has no finite result elsewhere. On the vectors of the examples, with
  the entries \<open>0\<close>, \<open>1\<close> and \<open>10\<^sup>2\<^sup>0\<close>, this is what \<^verbatim>\<open>float32\<close> arithmetic
  gives: the distances \<open>0\<close> and \<open>1\<close> are exact, and the square of \<open>10\<^sup>2\<^sup>0\<close>
  overflows.
\<close>

definition ex_fvec_L2sqr :: "vector \<Rightarrow> vector \<Rightarrow> real option" where
  "ex_fvec_L2sqr x y = (if l2sqr x y < FLT_MAX then Some (l2sqr x y) else None)"

text \<open>
  An embedding backend that answers the first request of a call with a vector of
  768 zeros and refuses every later one.
\<close>

definition ex_env_first_only :: env where
  "ex_env_first_only =
     \<lparr>split_text = split_chars,
      embed = (\<lambda>i t. if i = 0 then Response 200 ''OK'' (JsonField (replicate 768 0))
                      else RequestFailed ''connection refused''),
      fvec_L2sqr = ex_fvec_L2sqr,
      np_float = binary32,
      write_ok = True,
      generate = (\<lambda>p. RequestFailed ''connection refused''),
      md5_hexdigest = (\<lambda>s. s),
      redis_ok = True,
      now = 0\<rparr>"

text \<open>
  An embedding backend that answers every request with the one-dimensional vector
  \<open>[0]\<close>, and a generation backend that is down.
\<close>

definition ex_env_dim1 :: env where
  "ex_env_dim1 =
     \<lparr>split_text = split_chars,
      embed = (\<lambda>i t. Response 200 ''OK'' (JsonField [0])),
      fvec_L2sqr = ex_fvec_L2sqr,
      np_float = binary32,
      write_ok = True,
      generate = (\<lambda>p. RequestFailed ''connection refused''),
      md5_hexdigest = (\<lambda>s. s),
      redis_ok = True,
      now = 0\<rparr>"

text \<open>The service as \<^verbatim>\<open>__init__\<close> leaves it when there is nothing on disk.\<close>

definition ex_fresh :: rag_service where
  "ex_fresh = initialize_index \<lparr>index = IndexFlatL2 0, documents = [], disk = None\<rparr>"

definition ex_chunk :: "int \<Rightarrow> string \<Rightarrow> nat \<Rightarrow> string \<Rightarrow> chunk" where
  "ex_chunk did fname i c = \<lparr>document_id = did, filename = fname, chunk_index = i, content = c\<rparr>"

text \<open>Two calls on the fresh service, one chunk each, and the state they lead to.\<close>

definition ex_two_calls :: "(env \<times> int \<times> string \<times> string) list" where
  "ex_two_calls =
     [(ex_env_first_only, 7, ''a.txt'', ''a''), (ex_env_first_only, 8, ''b.txt'', ''b'')]"

definition ex_after_two :: rag_service where
  "ex_after_two =
     (let idx = \<lparr>idx_d = 768, idx_xb = [replicate 768 0, replicate 768 0]\<rparr>;
          docs = [ex_chunk 7 ''a.txt'' 0 ''a'', ex_chunk 8 ''b.txt'' 0 ''b'']
      in \<lparr>index = idx, documents = docs, disk = Some (idx, docs)\<rparr>)"

text \<open>
  A loaded service with a one-dimensional index of three rows, two of them equal, and
  chunks of two documents; the same index with an empty chunk list; and an embedding
  backend that answers with the vector \<open>[10\<^sup>2\<^sup>0]\<close>.
\<close>

definition ex_rag :: rag_service where
  "ex_rag =
     \<lparr>index = \<lparr>idx_d = 1, idx_xb = [[0], [0], [1]]\<rparr>,
      documents = [ex_chunk 1 ''a.txt'' 0 ''x'', ex_chunk 2 ''b.txt'' 0 ''y'',
                   ex_chunk 1 ''a.txt'' 1 ''z''],
      disk = None\<rparr>"

definition ex_rag_norecords :: rag_service where
  "ex_rag_norecords = ex_rag\<lparr>documents := []\<rparr>"

definition ex_env_huge :: env where
  "ex_env_huge =
     ex_env_dim1\<lparr>embed := (\<lambda>i t. Response 200 ''OK'' (JsonField [100000000000000000000]))\<rparr>"

text \<open>
  For the statement of the claim on the source list: the elements of a list in the
  order of their first occurrence, each once.
\<close>

definition first_occurrences :: "'a list \<Rightarrow> 'a list" where
  "first_occurrences xs = rev (remdups (rev xs))"

text \<open>
  Chat services over the loaded and over the fresh retrieval service, with an empty
  cache; one over the fresh retrieval service whose cache holds an older answer to the
  query \<open>q\<close>; and collaborators whose generation backend answers.
\<close>

definition ex_chat :: chat_service where
  "ex_chat = \<lparr>rag = ex_rag, redis_client = Some Map.empty, generate_requests = []\<rparr>"

definition ex_chat_empty :: chat_service where
  "ex_chat_empty = \<lparr>rag = ex_fresh, redis_client = Some Map.empty, generate_requests = []\<rparr>"

definition ex_old_entry :: cache_data where
  "ex_old_entry =
     \<lparr>response = ''an older answer'',
      sources = [\<lparr>src_document_id = 1, src_filename = ''a.txt'', relevance_score = 1\<rparr>]\<rparr>"

definition ex_chat_stale :: chat_service where
  "ex_chat_stale =
     \<lparr>rag = ex_fresh,
      redis_client = Some (Map.empty(''chat:q'' \<mapsto> (ex_old_entry, 100))),
      generate_requests = []\<rparr>"

definition ex_env_gen_ok :: env where
  "ex_env_gen_ok =
     ex_env_dim1\<lparr>generate := (\<lambda>p. Response 200 ''OK'' (JsonField '' It is x. ''))\<rparr>"

section \<open>Properties\<close>

subsection \<open>The embedding request\<close>

text \<open>
  Claim C4, as stated, fails: a vector whose dimension is not 768 is returned, not
  rejected. Here the backend answers with a vector of two numbers.
\<close>

theorem get_embedding_wrong_dimension_returned:
  "get_embedding (Response 200 ''OK'' (JsonField [1, 2])) = Inr [1, 2]
   \<and> length [1, 2 :: real] \<noteq> dimension"
  by (simp add: get_embedding_def dimension_def)

text \<open>
  Claim C4, amended: \<open>get_embedding\<close> makes no check of the dimension. A response that
  is not a 4xx or 5xx response and carries a vector yields that vector, whatever its
  length; a transport error is raised again as the connection error it is, and a 4xx or
  5xx response raises the HTTP error, whatever its body.
\<close>

theorem get_embedding_outcomes:
  "get_embedding (RequestFailed msg) = Inl (Exn ConnectionError msg)
   \<and> (400 \<le> status \<and> status < 600 \<longrightarrow>
        get_embedding (Response status reason b) = Inl (Exn HTTPError reason))
   \<and> (\<not> (400 \<le> status \<and> status < 600) \<longrightarrow>
        get_embedding (Response status reason (JsonField v)) = Inr v)"
  by (simp add: get_embedding_def)

theorem get_embedding_outcomes_witness:
  "get_embedding (RequestFailed ''connection refused'')
     = Inl (Exn ConnectionError ''connection refused'')
   \<and> get_embedding (Response 503 ''Service Unavailable'' MissingKey)
       = Inl (Exn HTTPError ''Service Unavailable'')
   \<and> get_embedding (Response 200 ''OK'' (JsonField [1, 2, 3])) = Inr [1, 2, 3]"
  using get_embedding_outcomes [of "''connection refused''" 503 "''Service Unavailable''" MissingKey]
    get_embedding_outcomes [of "''x''" 200 "''OK''" MissingKey "[1, 2, 3]"]
  by simp

subsection \<open>Indexing a document\<close>

text \<open>
  Claim C1 at a failing input: on the fresh service, a document of two chunks whose
  second embedding request is refused. The call raises, the chunk list has kept the
  record of the first chunk and the index has no row. The same happens when every
  embedding has the wrong dimension: the call raises at \<^verbatim>\<open>index.add\<close>, after the
  loop has appended a record for every chunk.
\<close>

theorem index_document_partial_failure:
  "index_document ex_env_first_only ex_fresh 7 ''a.txt'' ''ab''
     = (Inl (Exn ConnectionError ''connection refused''),
        ex_fresh\<lparr>documents := [ex_chunk 7 ''a.txt'' 0 ''a'']\<rparr>)
   \<and> index_document ex_env_dim1 ex_fresh 7 ''a.txt'' ''ab''
     = (Inl (Exn AssertionError []),
        ex_fresh\<lparr>documents := [ex_chunk 7 ''a.txt'' 0 ''a'', ex_chunk 7 ''a.txt'' 1 ''b'']\<rparr>)
   \<and> documents ex_fresh = [] \<and> ntotal (index ex_fresh) = 0"
  by (simp add: index_document_def ex_env_first_only_def ex_env_dim1_def ex_fresh_def
      split_chars_def get_embedding_def initialize_index_def IndexFlatL2_def np_array_def
      index_add_def dimension_def ex_chunk_def ntotal_def)

text \<open>
  A loop that ends without an exception has made one embedding and one metadata record
  for every chunk.
\<close>

lemma embed_chunks_lengths:
  "embed_chunks emb did fname i cs embs docs = (Inr embs', docs') \<Longrightarrow>
   length embs' = length embs + length cs \<and> length docs' = length docs + length cs"
proof (induction cs arbitrary: i embs docs)
  case Nil
  then show ?case by simp
next
  case (Cons c cs)
  then show ?case by (fastforce split: sum.splits)
qed

lemma np_array_Inr: "np_array vs = Inr arr \<Longrightarrow> arr = vs"
  by (auto simp: np_array_def split: list.splits if_splits)

lemma index_add_Inr: "index_add idx x = Inr idx' \<Longrightarrow> ntotal idx' = ntotal idx + length x"
  by (auto simp: index_add_def ntotal_def split: list.splits if_splits)

lemma index_document_success_lengths:
  assumes "index_document ev st did fname dtext = (Inr r, st')"
  shows "ntotal (index st') = ntotal (index st) + length (split_text ev dtext)
       \<and> length (documents st') = length (documents st) + length (split_text ev dtext)"
proof -
  obtain r0 docs where ec:
    "embed_chunks (embed ev) did fname 0 (split_text ev dtext) [] (documents st) = (r0, docs)"
    by (cases "embed_chunks (embed ev) did fname 0 (split_text ev dtext) [] (documents st)")
  from assms ec obtain embs arr idx where
    r0: "r0 = Inr embs" and arr: "np_array embs = Inr arr"
    and idx: "index_add (index st) arr = Inr idx"
    and st': "st' = save_index (write_ok ev) (st\<lparr>documents := docs, index := idx\<rparr>)"
    by (auto simp: index_document_def Let_def split: sum.splits)
  from ec r0 have len: "length embs = length (split_text ev dtext)"
    "length docs = length (documents st) + length (split_text ev dtext)"
    using embed_chunks_lengths by fastforce+
  from arr have "arr = embs" by (rule np_array_Inr)
  with idx len have "ntotal idx = ntotal (index st) + length (split_text ev dtext)"
    using index_add_Inr by fastforce
  with st' len show ?thesis by (simp add: save_index_def)
qed

lemma initialize_index_aligned:
  "ntotal (index (initialize_index st)) = length (documents (initialize_index st))"
  by (simp add: initialize_index_def IndexFlatL2_def ntotal_def)

text \<open>
  Claim C3: from a state in which the index has as many rows as the chunk list has
  records (the fresh service is one, by \<open>initialize_index_aligned\<close>), every sequence of
  \<^verbatim>\<open>index_document\<close> calls that all return leads to such a state again, and both have
  grown by the same number of entries.
\<close>

theorem index_documents_aligned:
  assumes "ntotal (index st) = length (documents st)"
    and "index_documents st calls = Some st'"
  shows "ntotal (index st') = length (documents st')
       \<and> (\<exists>n. ntotal (index st') = ntotal (index st) + n
              \<and> length (documents st') = length (documents st) + n)"
  using assms
proof (induction calls arbitrary: st)
  case Nil
  then show ?case by simp
next
  case (Cons call calls)
  obtain ev did fname dtext where call: "call = (ev, did, fname, dtext)"
    by (cases call)
  from Cons.prems(2) call obtain r st1 where
    step: "index_document ev st did fname dtext = (Inr r, st1)"
    and rest: "index_documents st1 calls = Some st'"
    by (auto split: prod.splits sum.splits)
  from index_document_success_lengths [OF step] Cons.prems(1)
  have al: "ntotal (index st1) = length (documents st1)" by simp
  from Cons.IH [OF al rest] index_document_success_lengths [OF step]
  show ?case by (metis add.assoc)
qed

theorem index_documents_aligned_witness:
  "ntotal (index ex_fresh) = length (documents ex_fresh)
   \<and> index_documents ex_fresh ex_two_calls = Some ex_after_two
   \<and> ntotal (index ex_after_two) = length (documents ex_after_two)
   \<and> length (documents ex_after_two) = 2"
proof -
  have a: "ntotal (index ex_fresh) = length (documents ex_fresh)"
    by (simp add: ex_fresh_def initialize_index_def IndexFlatL2_def ntotal_def)
  have r: "index_documents ex_fresh ex_two_calls = Some ex_after_two"
    by (simp add: ex_two_calls_def ex_after_two_def index_document_def ex_env_first_only_def
        ex_fresh_def split_chars_def get_embedding_def initialize_index_def IndexFlatL2_def
        np_array_def index_add_def dimension_def ex_chunk_def save_index_def Let_def)
  from index_documents_aligned [OF a r] a r show ?thesis
    by (simp add: ex_after_two_def Let_def)
qed

subsection \<open>Floating-point rounding\<close>


lemma rne_of_int: "rne (of_int n) = n"
  by (simp add: rne_def)





lemma ulp_pos: "0 < ulp fmt x"
  by (simp add: ulp_def)





lemma powr_int_nonneg: "0 \<le> n \<Longrightarrow> (2::real) powr of_int n = of_int (2 ^ nat n)"
  by (simp add: powr_int)




text \<open>A power of two that is not below the least subnormal number is a float.\<close>

lemma fp_round_pow2:
  assumes "1 \<le> fmt_prec fmt" and "fmt_emin fmt - int (fmt_prec fmt) + 1 \<le> k"
  shows "fp_round fmt (2 powr of_int k) = 2 powr of_int k"
proof -
  let ?x = "(2::real) powr of_int k" and ?p = "fmt_prec fmt"
  let ?E = "fp_exponent fmt ?x"
  have E: "?E = max (fmt_emin fmt) k" by (simp add: fp_exponent_def)
  define n where "n = k - ?E + int ?p - 1"
  have n: "0 \<le> n" using assms unfolding n_def E by (simp add: max_def)
  have "?x / ulp fmt ?x = 2 powr of_int n"
    unfolding ulp_def n_def powr_diff [symmetric] by (simp add: algebra_simps)
  also have "\<dots> = of_int (2 ^ nat n)" using n by (rule powr_int_nonneg)
  finally have q: "?x / ulp fmt ?x = of_int (2 ^ nat n)" .
  have "ulp fmt ?x * of_int (rne (?x / ulp fmt ?x)) = ulp fmt ?x * (?x / ulp fmt ?x)"
    by (simp only: q rne_of_int)
  also have "\<dots> = ?x" using ulp_pos [of fmt ?x] by simp
  finally show ?thesis by (simp add: fp_round_def)
qed


text \<open>The two formats of numpy.\<close>

lemma np_format_binary32: "np_format binary32"
  by (simp add: np_format_def)

lemma np_format_prec: "np_format fmt \<Longrightarrow> 1 \<le> fmt_prec fmt"
  by (auto simp: np_format_def binary32_def binary64_def)

lemma np_format_range: "np_format fmt \<Longrightarrow> fmt_emin fmt - int (fmt_prec fmt) + 1 \<le> - 128"
  by (auto simp: np_format_def binary32_def binary64_def)

lemma fp_round_pow2_np:
  assumes "np_format fmt" and "- 128 \<le> k"
  shows "fp_round fmt (2 powr of_int k) = 2 powr of_int k"
  using assms np_format_prec [OF assms(1)] np_format_range [OF assms(1)]
  by (intro fp_round_pow2) auto

lemma fp_round_1: "np_format fmt \<Longrightarrow> fp_round fmt 1 = 1"
  using fp_round_pow2_np [of fmt 0] by simp

lemma fp_round_2: "np_format fmt \<Longrightarrow> fp_round fmt 2 = 2"
  using fp_round_pow2_np [of fmt 1] by simp

lemma fp_round_half: "np_format fmt \<Longrightarrow> fp_round fmt (1 / 2) = 1 / 2"
  using fp_round_pow2_np [of fmt "- 1"] by (simp add: powr_minus field_simps)







lemma similarity_0: "np_format fmt \<Longrightarrow> similarity fmt 0 = 1"
  by (simp add: similarity_def fp_round_1)

lemma similarity_1: "np_format fmt \<Longrightarrow> similarity fmt 1 = 1 / 2"
  by (simp add: similarity_def fp_round_2 fp_round_half)


subsection \<open>Searching\<close>







text \<open>The search of the example index for a query whose embedding is \<open>[0]\<close>.\<close>

lemma ex_rag_search:
  assumes "embed ev 0 q = Response 200 ''OK'' (JsonField [0])"
    and "fvec_L2sqr ev = ex_fvec_L2sqr" and "np_float ev = binary32"
  shows "search_similar ev ex_rag q None
     = Inr [(ex_chunk 1 ''a.txt'' 0 ''x'', 1), (ex_chunk 2 ''b.txt'' 0 ''y'', 1),
            (ex_chunk 1 ''a.txt'' 1 ''z'', 1 / 2)]"
proof -
  have hits: "index_search ex_fvec_L2sqr (index ex_rag) [0] 3 = Inr [(0, 0), (0, 1), (1, 2)]"
    by (simp add: index_search_def candidates_def List.map_filter_simps ex_fvec_L2sqr_def
        ex_rag_def ntotal_def l2sqr_def FLT_MAX_def sort_key_def upt_rec)
  have n: "ntotal (index ex_rag) = 3" by (simp add: ex_rag_def ntotal_def)
  show ?thesis
    using assms hits n
    by (simp add: search_similar_def get_embedding_def TOP_K_RESULTS_def py_index_def
        similarity_0 similarity_1 np_format_binary32) (simp add: ex_rag_def)
qed




text \<open>
  Claim C10 at two failing inputs. The embedding of the query is \<open>[10\<^sup>2\<^sup>0]\<close>, so the
  \<^verbatim>\<open>float32\<close> distance to every row overflows and the index search returns the label
  \<open>-1\<close> three times; the guard \<^verbatim>\<open>idx < len(self.documents)\<close> lets \<open>-1\<close> pass. With an
  empty chunk list (an index of more rows than records) the lookup raises the index
  error. With the aligned chunk list every result is the last chunk, which is the
  element at none of the row ids.
\<close>

theorem search_similar_negative_label:
  "search_similar ex_env_huge ex_rag_norecords ''q'' None
     = Inl (Exn IndexError ''list index out of range'')
   \<and> search_similar ex_env_huge ex_rag ''q'' None
     = Inr [(ex_chunk 1 ''a.txt'' 1 ''z'', similarity binary32 FLT_MAX),
            (ex_chunk 1 ''a.txt'' 1 ''z'', similarity binary32 FLT_MAX),
            (ex_chunk 1 ''a.txt'' 1 ''z'', similarity binary32 FLT_MAX)]
   \<and> index_search (fvec_L2sqr ex_env_huge) (index ex_rag) [100000000000000000000] 3
     = Inr [(FLT_MAX, - 1), (FLT_MAX, - 1), (FLT_MAX, - 1)]"
proof -
  have hits: "index_search ex_fvec_L2sqr (index ex_rag) [100000000000000000000] 3
      = Inr [(FLT_MAX, - 1), (FLT_MAX, - 1), (FLT_MAX, - 1)]"
    by (simp add: index_search_def candidates_def List.map_filter_simps ex_fvec_L2sqr_def
        ex_rag_def ntotal_def l2sqr_def FLT_MAX_def sort_key_def upt_rec numeral_3_eq_3)
  have n: "ntotal (index ex_rag) = 3" "index ex_rag_norecords = index ex_rag"
    by (simp_all add: ex_rag_def ex_rag_norecords_def ntotal_def)
  have e: "get_embedding (embed ex_env_huge 0 ''q'') = Inr [100000000000000000000]"
    "fvec_L2sqr ex_env_huge = ex_fvec_L2sqr" "np_float ex_env_huge = binary32"
    by (simp_all add: ex_env_huge_def ex_env_dim1_def get_embedding_def)
  have "search_similar ex_env_huge ex_rag_norecords ''q'' None
     = Inl (Exn IndexError ''list index out of range'')"
    using hits n e
    by (simp add: search_similar_def TOP_K_RESULTS_def py_index_def)
       (simp add: ex_rag_norecords_def)
  moreover have "search_similar ex_env_huge ex_rag ''q'' None
     = Inr [(ex_chunk 1 ''a.txt'' 1 ''z'', similarity binary32 FLT_MAX),
            (ex_chunk 1 ''a.txt'' 1 ''z'', similarity binary32 FLT_MAX),
            (ex_chunk 1 ''a.txt'' 1 ''z'', similarity binary32 FLT_MAX)]"
    using hits n e
    by (simp add: search_similar_def TOP_K_RESULTS_def py_index_def)
       (simp add: ex_rag_def)
  ultimately show ?thesis using hits e by simp
qed

subsection \<open>The source list of a query\<close>

lemma remdups_snoc: "remdups (zs @ [x]) = remdups (filter (\<lambda>y. y \<noteq> x) zs) @ [x]"
  by (induction zs) auto

lemma first_occurrences_Cons:
  "first_occurrences (x # ys) = x # first_occurrences (filter (\<lambda>y. y \<noteq> x) ys)"
  by (simp add: first_occurrences_def remdups_snoc rev_filter)

lemma set_first_occurrences: "set (first_occurrences xs) = set xs"
  by (simp add: first_occurrences_def)

lemma distinct_first_occurrences: "distinct (first_occurrences xs)"
  by (simp add: first_occurrences_def)

text \<open>
  The loop of \<^verbatim>\<open>get_context_for_query\<close> from any intermediate state: it appends the
  content of every chunk, and a source for every document id that is neither in
  \<^verbatim>\<open>seen_docs\<close> nor met earlier in the loop, made from the chunk at which the id is
  first met.
\<close>

lemma build_context_acc:
  "build_context xs parts srcs seen = (parts', srcs') \<Longrightarrow>
   parts' = parts @ map (\<lambda>r. content (fst r)) xs
   \<and> (\<exists>new. srcs' = srcs @ new
        \<and> map src_document_id new
            = first_occurrences (filter (\<lambda>d. d \<notin> seen) (map (\<lambda>r. document_id (fst r)) xs))
        \<and> (\<forall>s \<in> set new. \<exists>c sc.
              find (\<lambda>(c, sc). document_id c = src_document_id s) xs = Some (c, sc)
              \<and> src_filename s = filename c \<and> relevance_score s = sc))"
proof (induction xs arbitrary: parts srcs seen)
  case Nil
  then show ?case by (simp add: first_occurrences_def)
next
  case (Cons x xs)
  obtain c sc where x: "x = (c, sc)" by (cases x)
  let ?d = "document_id c"
  let ?ids = "map (\<lambda>r. document_id (fst r)) xs"
  show ?case
  proof (cases "?d \<in> seen")
    case True
    with Cons.prems x
    have "build_context xs (parts @ [content c]) srcs seen = (parts', srcs')"
      by simp
    from Cons.IH [OF this] obtain new where
      parts': "parts' = (parts @ [content c]) @ map (\<lambda>r. content (fst r)) xs"
      and srcs': "srcs' = srcs @ new"
      and ids: "map src_document_id new = first_occurrences (filter (\<lambda>d. d \<notin> seen) ?ids)"
      and each: "\<forall>s \<in> set new. \<exists>c sc.
              find (\<lambda>(c, sc). document_id c = src_document_id s) xs = Some (c, sc)
              \<and> src_filename s = filename c \<and> relevance_score s = sc"
      by blast
    have "\<forall>s \<in> set new. src_document_id s \<noteq> ?d"
    proof
      fix s assume "s \<in> set new"
      then have "src_document_id s \<in> set (map src_document_id new)" by simp
      then have "src_document_id s \<notin> seen"
        unfolding ids set_first_occurrences by simp
      with True show "src_document_id s \<noteq> ?d" by auto
    qed
    with each have "\<forall>s \<in> set new. \<exists>c' sc'.
              find (\<lambda>(c, sc). document_id c = src_document_id s) (x # xs) = Some (c', sc')
              \<and> src_filename s = filename c' \<and> relevance_score s = sc'"
      using x by fastforce
    with parts' srcs' ids True x show ?thesis by auto
  next
    case False
    let ?ref = "\<lparr>src_document_id = ?d, src_filename = filename c, relevance_score = sc\<rparr>"
    from False Cons.prems x
    have "build_context xs (parts @ [content c]) (srcs @ [?ref]) (insert ?d seen)
          = (parts', srcs')"
      by (simp add: Let_def)
    from Cons.IH [OF this] obtain new where
      parts': "parts' = (parts @ [content c]) @ map (\<lambda>r. content (fst r)) xs"
      and srcs': "srcs' = (srcs @ [?ref]) @ new"
      and ids: "map src_document_id new
                = first_occurrences (filter (\<lambda>d. d \<notin> insert ?d seen) ?ids)"
      and each: "\<forall>s \<in> set new. \<exists>c sc.
              find (\<lambda>(c, sc). document_id c = src_document_id s) xs = Some (c, sc)
              \<and> src_filename s = filename c \<and> relevance_score s = sc"
      by blast
    have ids': "map src_document_id (?ref # new)
                = first_occurrences (filter (\<lambda>d. d \<notin> seen) (map (\<lambda>r. document_id (fst r)) (x # xs)))"
      using False x by (simp add: first_occurrences_Cons ids conj_commute)
    have "\<forall>s \<in> set new. src_document_id s \<noteq> ?d"
    proof
      fix s assume "s \<in> set new"
      then have "src_document_id s \<in> set (map src_document_id new)" by simp
      then show "src_document_id s \<noteq> ?d"
        unfolding ids set_first_occurrences by simp
    qed
    with each have "\<forall>s \<in> set new. \<exists>c' sc'.
              find (\<lambda>(c, sc). document_id c = src_document_id s) (x # xs) = Some (c', sc')
              \<and> src_filename s = filename c' \<and> relevance_score s = sc'"
      using x by fastforce
    then have each': "\<forall>s \<in> set (?ref # new). \<exists>c' sc'.
              find (\<lambda>(c, sc). document_id c = src_document_id s) (x # xs) = Some (c', sc')
              \<and> src_filename s = filename c' \<and> relevance_score s = sc'"
      using x by simp
    from parts' have "parts' = parts @ map (\<lambda>r. content (fst r)) (x # xs)" using x by simp
    moreover from srcs' have "srcs' = srcs @ (?ref # new)" by simp
    ultimately show ?thesis using ids' each' by blast
  qed
qed

text \<open>
  Claim C9: for every result list, the sources that the loop of
  \<^verbatim>\<open>get_context_for_query\<close> builds carry the document ids of the results in the order
  of their first occurrence, each once, and every source has the filename and the
  score of the first result of its document; and these are the sources that
  \<^verbatim>\<open>get_context_for_query\<close> returns when the search returns the results.
\<close>

theorem get_context_sources_deduplicated:
  "map src_document_id (snd (build_context results [] [] {}))
     = first_occurrences (map (\<lambda>r. document_id (fst r)) results)
   \<and> distinct (map src_document_id (snd (build_context results [] [] {})))
   \<and> set (map src_document_id (snd (build_context results [] [] {})))
       = set (map (\<lambda>r. document_id (fst r)) results)
   \<and> (\<forall>s \<in> set (snd (build_context results [] [] {})). \<exists>c sc.
         find (\<lambda>(c, sc). document_id c = src_document_id s) results = Some (c, sc)
         \<and> src_filename s = filename c \<and> relevance_score s = sc)
   \<and> (search_similar ev st q None = Inr results \<longrightarrow>
        (\<exists>context. get_context_for_query ev st q
           = Inr (context, snd (build_context results [] [] {}))))"
proof -
  obtain parts srcs where bc: "build_context results [] [] {} = (parts, srcs)"
    by (cases "build_context results [] [] {}")
  from build_context_acc [OF bc]
  have ids: "map src_document_id srcs = first_occurrences (map (\<lambda>r. document_id (fst r)) results)"
    and each: "\<forall>s \<in> set srcs. \<exists>c sc.
         find (\<lambda>(c, sc). document_id c = src_document_id s) results = Some (c, sc)
         \<and> src_filename s = filename c \<and> relevance_score s = sc"
    by auto
  have "distinct (map src_document_id srcs)"
    unfolding ids by (rule distinct_first_occurrences)
  moreover have "set (map src_document_id srcs) = set (map (\<lambda>r. document_id (fst r)) results)"
    unfolding ids by (rule set_first_occurrences)
  moreover have "search_similar ev st q None = Inr results \<longrightarrow>
      (\<exists>context. get_context_for_query ev st q = Inr (context, srcs))"
    using bc by (cases results) (auto simp: get_context_for_query_def)
  ultimately show ?thesis using ids each bc by simp
qed

theorem get_context_sources_deduplicated_witness:
  "search_similar ex_env_dim1 ex_rag ''q'' None
     = Inr [(ex_chunk 1 ''a.txt'' 0 ''x'', 1), (ex_chunk 2 ''b.txt'' 0 ''y'', 1),
            (ex_chunk 1 ''a.txt'' 1 ''z'', 1 / 2)]
   \<and> snd (build_context [(ex_chunk 1 ''a.txt'' 0 ''x'', 1), (ex_chunk 2 ''b.txt'' 0 ''y'', 1),
            (ex_chunk 1 ''a.txt'' 1 ''z'', 1 / 2)] [] [] {})
     = [\<lparr>src_document_id = 1, src_filename = ''a.txt'', relevance_score = 1\<rparr>,
        \<lparr>src_document_id = 2, src_filename = ''b.txt'', relevance_score = 1\<rparr>]
   \<and> (\<exists>context. get_context_for_query ex_env_dim1 ex_rag ''q''
         = Inr (context,
             [\<lparr>src_document_id = 1, src_filename = ''a.txt'', relevance_score = 1\<rparr>,
              \<lparr>src_document_id = 2, src_filename = ''b.txt'', relevance_score = 1\<rparr>]))"
proof -
  let ?results = "[(ex_chunk 1 ''a.txt'' 0 ''x'', 1 :: real), (ex_chunk 2 ''b.txt'' 0 ''y'', 1),
            (ex_chunk 1 ''a.txt'' 1 ''z'', 1 / 2)]"
  have r: "search_similar ex_env_dim1 ex_rag ''q'' None = Inr ?results"
    by (rule ex_rag_search) (simp_all add: ex_env_dim1_def)
  have b: "snd (build_context ?results [] [] {})
     = [\<lparr>src_document_id = 1, src_filename = ''a.txt'', relevance_score = 1\<rparr>,
        \<lparr>src_document_id = 2, src_filename = ''b.txt'', relevance_score = 1\<rparr>]"
    by (simp add: ex_chunk_def)
  from get_context_sources_deduplicated [of ?results ex_env_dim1 ex_rag "''q''"] r b
  show ?thesis by simp
qed

subsection \<open>Answering a query\<close>

lemma query_hit:
  "get_cached_response ev st q = Some cached \<Longrightarrow>
   query ev st q = (Inr (response cached, sources cached, True), st)"
  by (simp add: query_def)

text \<open>
  On a miss with a context that is not empty, the prompt is posted, and the answer and
  sources that are returned are the ones that are handed to \<^verbatim>\<open>_cache_response\<close>,
  whether the generation succeeded or not.
\<close>

lemma query_generated:
  assumes "get_cached_response ev st q = None"
    and "get_context_for_query ev (rag st) q = Inr (context, srcs)"
    and "context \<noteq> []"
  shows "\<exists>answer srcs1.
           query ev st q =
             (Inr (answer, srcs1, False),
              cache_response ev
                (st\<lparr>generate_requests := generate_requests st @ [build_prompt q context]\<rparr>) q
                \<lparr>response = answer, sources = srcs1\<rparr>)
           \<and> (answer, srcs1) =
               (case post_json ''response'' (generate ev (build_prompt q context)) of
                  Inr text_out \<Rightarrow> (strip text_out, srcs)
                | Inl e \<Rightarrow> (''Error generating response: '' @ str_exn e, []))"
  using assms by (simp add: query_def Let_def split: sum.splits)

lemma query_generation_failed:
  assumes "get_cached_response ev st q = None"
    and "get_context_for_query ev (rag st) q = Inr (context, srcs)"
    and "context \<noteq> []"
    and "post_json ''response'' (generate ev (build_prompt q context)) = Inl e"
  shows "query ev st q =
           (Inr (''Error generating response: '' @ str_exn e, [], False),
            cache_response ev
              (st\<lparr>generate_requests := generate_requests st @ [build_prompt q context]\<rparr>) q
              \<lparr>response = ''Error generating response: '' @ str_exn e, sources = []\<rparr>)"
  using assms by (simp add: query_def Let_def)

text \<open>
  An entry written by an operational cache is read back by the next lookup of the same
  query, as long as it has not expired.
\<close>

lemma cached_after_cache_response:
  assumes "redis_client st = Some r" and "redis_ok ev" and "redis_ok ev'"
    and "md5_hexdigest ev' q = md5_hexdigest ev q"
    and "now ev' < now ev + CACHE_TTL"
  shows "get_cached_response ev' (cache_response ev st q data) q = Some data"
  using assms
  by (simp add: get_cached_response_def cache_response_def redis_get_def redis_setex_def
      get_cache_key_def)

lemma context_found_sources_nonempty:
  assumes "get_context_for_query ev st q = Inr (context, srcs)" and "context \<noteq> []"
  shows "srcs \<noteq> []"
proof -
  from assms obtain results parts where r: "results \<noteq> []"
    and bc: "build_context results [] [] {} = (parts, srcs)"
    by (auto simp: get_context_for_query_def split: sum.splits if_splits prod.splits)
  from build_context_acc [OF bc]
  have "map src_document_id srcs = first_occurrences (map (\<lambda>r. document_id (fst r)) results)"
    by auto
  then have "set (map src_document_id srcs) = set (map (\<lambda>r. document_id (fst r)) results)"
    by (simp only: set_first_occurrences)
  with r show ?thesis by (cases results) auto
qed

text \<open>The context of the example service for a query whose embedding is \<open>[0]\<close>.\<close>

lemma ex_rag_context:
  assumes "embed ev 0 q = Response 200 ''OK'' (JsonField [0])"
    and "fvec_L2sqr ev = ex_fvec_L2sqr" and "np_float ev = binary32"
  shows "get_context_for_query ev ex_rag q
     = Inr (''x'' @ separator @ ''y'' @ separator @ ''z'',
            [\<lparr>src_document_id = 1, src_filename = ''a.txt'', relevance_score = 1\<rparr>,
             \<lparr>src_document_id = 2, src_filename = ''b.txt'', relevance_score = 1\<rparr>])"
  using ex_rag_search [OF assms]
  by (simp add: get_context_for_query_def ex_chunk_def Let_def)

lemma ex_chat_context:
  "get_context_for_query ex_env_dim1 (rag ex_chat) ''q''
     = Inr (''x'' @ separator @ ''y'' @ separator @ ''z'',
            [\<lparr>src_document_id = 1, src_filename = ''a.txt'', relevance_score = 1\<rparr>,
             \<lparr>src_document_id = 2, src_filename = ''b.txt'', relevance_score = 1\<rparr>])"
  unfolding ex_chat_def chat_service.simps
  by (rule ex_rag_context) (simp_all add: ex_env_dim1_def)

lemma ex_chat_context_gen_ok:
  "get_context_for_query ex_env_gen_ok (rag ex_chat) ''q''
     = Inr (''x'' @ separator @ ''y'' @ separator @ ''z'',
            [\<lparr>src_document_id = 1, src_filename = ''a.txt'', relevance_score = 1\<rparr>,
             \<lparr>src_document_id = 2, src_filename = ''b.txt'', relevance_score = 1\<rparr>])"
  unfolding ex_chat_def chat_service.simps
  by (rule ex_rag_context) (simp_all add: ex_env_gen_ok_def ex_env_dim1_def)

lemma ex_chat_miss: "get_cached_response ev ex_chat q = None"
  by (simp add: get_cached_response_def redis_get_def ex_chat_def)

lemma ex_generate_down:
  "post_json ''response'' (generate ex_env_dim1 p)
     = Inl (Exn ConnectionError ''connection refused'')"
  by (simp add: ex_env_dim1_def)




text \<open>
  Claim C5, as stated, fails: the retrieval found two sources, the generation call
  failed, and the triple that \<^verbatim>\<open>query\<close> returns has an empty source list.
\<close>

theorem query_error_answer_drops_sources:
  "get_context_for_query ex_env_dim1 (rag ex_chat) ''q''
     = Inr (''x'' @ separator @ ''y'' @ separator @ ''z'',
            [\<lparr>src_document_id = 1, src_filename = ''a.txt'', relevance_score = 1\<rparr>,
             \<lparr>src_document_id = 2, src_filename = ''b.txt'', relevance_score = 1\<rparr>])
   \<and> fst (query ex_env_dim1 ex_chat ''q'')
     = Inr (''Error generating response: connection refused'', [], False)"
  using query_generation_failed [OF ex_chat_miss ex_chat_context _ ex_generate_down]
    ex_chat_context
  by simp

text \<open>
  Claim C5, amended: when the generation call fails on a query that missed the cache
  and found a context, the source list of the retrieval is not empty, and the triple
  that \<^verbatim>\<open>query\<close> returns carries the error text, an empty source list and no cache hit.
\<close>

theorem query_generation_failure_sources_empty:
  assumes "get_cached_response ev st q = None"
    and "get_context_for_query ev (rag st) q = Inr (context, srcs)"
    and "context \<noteq> []"
    and "post_json ''response'' (generate ev (build_prompt q context)) = Inl e"
  shows "srcs \<noteq> []
       \<and> fst (query ev st q) = Inr (''Error generating response: '' @ str_exn e, [], False)"
proof -
  have "srcs \<noteq> []" using assms(2,3) by (rule context_found_sources_nonempty)
  moreover have "fst (query ev st q)
      = Inr (''Error generating response: '' @ str_exn e, [], False)"
    using query_generation_failed [OF assms] by simp
  ultimately show ?thesis by simp
qed

theorem query_generation_failure_sources_empty_witness:
  "get_cached_response ex_env_dim1 ex_chat ''q'' = None
   \<and> fst (query ex_env_dim1 ex_chat ''q'')
       = Inr (''Error generating response: connection refused'', [], False)"
proof -
  let ?srcs = "[\<lparr>src_document_id = 1, src_filename = ''a.txt'', relevance_score = 1\<rparr>,
        \<lparr>src_document_id = 2, src_filename = ''b.txt'', relevance_score = 1\<rparr>]"
  let ?ctx_text = "''x'' @ separator @ ''y'' @ separator @ ''z''"
  have miss: "get_cached_response ex_env_dim1 ex_chat ''q'' = None"
    by (simp add: get_cached_response_def redis_get_def ex_chat_def)
  have ctx: "get_context_for_query ex_env_dim1 (rag ex_chat) ''q'' = Inr (?ctx_text, ?srcs)"
    by (rule ex_chat_context)
  have ne: "?ctx_text \<noteq> []" by simp
  have gen: "post_json ''response'' (generate ex_env_dim1 (build_prompt ''q'' ?ctx_text))
      = Inl (Exn ConnectionError ''connection refused'')"
    by (simp add: ex_env_dim1_def)
  from query_generation_failure_sources_empty [OF miss ctx ne gen] miss
  show ?thesis by simp
qed

text \<open>
  Claim C7, as stated, fails: the cache is looked up before the index. On the fresh
  service, whose index has no row, with a cache that still holds an answer to the
  query, \<^verbatim>\<open>query\<close> returns that answer and its sources as a cache hit.
\<close>

theorem stale_cache_hit_on_empty_index:
  "ntotal (index (rag ex_chat_stale)) = 0
   \<and> query ex_env_dim1 ex_chat_stale ''q''
     = (Inr (''an older answer'',
             [\<lparr>src_document_id = 1, src_filename = ''a.txt'', relevance_score = 1\<rparr>], True),
        ex_chat_stale)"
  by (simp add: query_def get_cached_response_def redis_get_def get_cache_key_def
      ex_chat_stale_def ex_old_entry_def ex_env_dim1_def ex_fresh_def initialize_index_def
      IndexFlatL2_def ntotal_def)

text \<open>
  Claim C7, amended: for every query that misses the cache while the index has no row,
  the retrieval returns the empty result and the empty context with no source, not an
  error, and \<^verbatim>\<open>query\<close> returns the canned answer with no source and no cache hit; the
  state is unchanged, so no prompt was posted to the generation backend and nothing was
  written to the cache.
\<close>

theorem query_empty_index:
  assumes "ntotal (index (rag st)) = 0" and "get_cached_response ev st q = None"
  shows "search_similar ev (rag st) q None = Inr []
       \<and> get_context_for_query ev (rag st) q = Inr ([], [])
       \<and> query ev st q = (Inr (no_documents_answer, [], False), st)
       \<and> generate_requests (snd (query ev st q)) = generate_requests st
       \<and> redis_client (snd (query ev st q)) = redis_client st"
proof -
  from assms(1) have s: "search_similar ev (rag st) q None = Inr []"
    by (simp add: search_similar_def)
  then have c: "get_context_for_query ev (rag st) q = Inr ([], [])"
    by (simp add: get_context_for_query_def)
  with assms(2) have "query ev st q = (Inr (no_documents_answer, [], False), st)"
    by (simp add: query_def)
  with s c show ?thesis by simp
qed

theorem query_empty_index_witness:
  "ntotal (index (rag ex_chat_empty)) = 0
   \<and> get_cached_response ex_env_dim1 ex_chat_empty ''q'' = None
   \<and> query ex_env_dim1 ex_chat_empty ''q''
       = (Inr (no_documents_answer, [], False), ex_chat_empty)"
proof -
  have n: "ntotal (index (rag ex_chat_empty)) = 0"
    by (simp add: ex_chat_empty_def ex_fresh_def initialize_index_def IndexFlatL2_def
        ntotal_def)
  have miss: "get_cached_response ex_env_dim1 ex_chat_empty ''q'' = None"
    by (simp add: get_cached_response_def redis_get_def ex_chat_empty_def)
  from query_empty_index [OF n miss] n miss show ?thesis by simp
qed

text \<open>
  Claim C8, as stated, fails: on the fresh service the canned answer is not cached, so
  with an operational cache that is free of the query the second of two calls in
  succession is no cache hit either.
\<close>

theorem query_twice_empty_index_no_hit:
  "redis_client ex_chat_empty = Some Map.empty
   \<and> redis_ok ex_env_dim1
   \<and> get_cached_response ex_env_dim1 ex_chat_empty ''q'' = None
   \<and> fst (query ex_env_dim1 ex_chat_empty ''q'') = Inr (no_documents_answer, [], False)
   \<and> fst (query ex_env_dim1 (snd (query ex_env_dim1 ex_chat_empty ''q'')) ''q'')
       = Inr (no_documents_answer, [], False)"
  by (simp add: query_def get_cached_response_def redis_get_def get_cache_key_def
      ex_chat_empty_def ex_env_dim1_def ex_fresh_def initialize_index_def IndexFlatL2_def
      ntotal_def get_context_for_query_def search_similar_def)

text \<open>
  Claim C8, amended: for every query whose retrieval finds a context that is not empty,
  with an operational cache that is free of the query, the first call is no cache hit
  and a second call before the entry expires is one, whatever the backends do then,
  and both return the same answer and the same sources.
\<close>

theorem query_twice_hits_cache:
  assumes "redis_client st = Some r" and "redis_ok ev" and "redis_ok ev'"
    and "md5_hexdigest ev' q = md5_hexdigest ev q"
    and "now ev' < now ev + CACHE_TTL"
    and "get_cached_response ev st q = None"
    and "get_context_for_query ev (rag st) q = Inr (context, srcs)"
    and "context \<noteq> []"
  shows "\<exists>answer srcs1.
           fst (query ev st q) = Inr (answer, srcs1, False)
           \<and> query ev' (snd (query ev st q)) q
               = (Inr (answer, srcs1, True), snd (query ev st q))"
proof -
  let ?st1 = "st\<lparr>generate_requests := generate_requests st @ [build_prompt q context]\<rparr>"
  from query_generated [OF assms(6-8)] obtain answer srcs1 where
    q1: "query ev st q
      = (Inr (answer, srcs1, False),
         cache_response ev ?st1 q \<lparr>response = answer, sources = srcs1\<rparr>)"
    by blast
  have "redis_client ?st1 = Some r" using assms(1) by simp
  then have hit: "get_cached_response ev'
      (cache_response ev ?st1 q \<lparr>response = answer, sources = srcs1\<rparr>) q
      = Some \<lparr>response = answer, sources = srcs1\<rparr>"
    using assms(2-5) by (rule cached_after_cache_response)
  from query_hit [OF hit] q1 show ?thesis by simp
qed

theorem query_twice_hits_cache_witness:
  "get_cached_response ex_env_gen_ok ex_chat ''q'' = None
   \<and> fst (query ex_env_gen_ok ex_chat ''q'')
       = Inr (''It is x.'',
              [\<lparr>src_document_id = 1, src_filename = ''a.txt'', relevance_score = 1\<rparr>,
               \<lparr>src_document_id = 2, src_filename = ''b.txt'', relevance_score = 1\<rparr>], False)
   \<and> fst (query ex_env_dim1 (snd (query ex_env_gen_ok ex_chat ''q'')) ''q'')
       = Inr (''It is x.'',
              [\<lparr>src_document_id = 1, src_filename = ''a.txt'', relevance_score = 1\<rparr>,
               \<lparr>src_document_id = 2, src_filename = ''b.txt'', relevance_score = 1\<rparr>], True)"
proof -
  let ?srcs = "[\<lparr>src_document_id = 1, src_filename = ''a.txt'', relevance_score = 1\<rparr>,
        \<lparr>src_document_id = 2, src_filename = ''b.txt'', relevance_score = 1\<rparr>]"
  let ?ctx_text = "''x'' @ separator @ ''y'' @ separator @ ''z''"
  have miss: "get_cached_response ex_env_gen_ok ex_chat ''q'' = None"
    by (simp add: get_cached_response_def redis_get_def ex_chat_def)
  have ctx: "get_context_for_query ex_env_gen_ok (rag ex_chat) ''q'' = Inr (?ctx_text, ?srcs)"
    by (rule ex_chat_context_gen_ok)
  have ne: "?ctx_text \<noteq> []" by simp
  have cl: "redis_client ex_chat = Some Map.empty" by (simp add: ex_chat_def)
  have ok: "redis_ok ex_env_gen_ok" "redis_ok ex_env_dim1"
    by (simp_all add: ex_env_gen_ok_def ex_env_dim1_def)
  have md5: "md5_hexdigest ex_env_dim1 ''q'' = md5_hexdigest ex_env_gen_ok ''q''"
    by (simp add: ex_env_gen_ok_def)
  have ttl: "now ex_env_dim1 < now ex_env_gen_ok + CACHE_TTL"
    by (simp add: ex_env_gen_ok_def CACHE_TTL_def)
  have first: "fst (query ex_env_gen_ok ex_chat ''q'') = Inr (''It is x.'', ?srcs, False)"
    using miss ctx
    by (simp add: query_def Let_def ex_env_gen_ok_def ex_env_dim1_def strip_def is_space_def)
  from query_twice_hits_cache [OF cl ok md5 ttl miss ctx ne] first miss
  show ?thesis by auto
qed

end
